theory Spec2Isabelle
  imports Main "HOL-Library.Sublist"
begin

section \<open>The REPL driver of \<open>simple-agent/main.py\<close>\<close>

text \<open>
  The program is one coroutine, \<open>main\<close>: it connects to the tool server, loads the
  tools, builds the agent, and then reads user input in a loop. The agent
  (\<open>create_react_agent\<close>), the tool session and the language model are imported libraries;
  they enter the model as parameters. Everything \<open>main\<close> itself does is modelled: the
  list \<open>messages\<close>, the exit test, the cap on the input, the \<open>try\<close>/\<open>except\<close>
  around the invocation, and every call that is visible from outside, recorded in order in
  a trace.

  A Python \<open>str\<close> is modelled as a \<open>string\<close>, one \<open>char\<close> for each character of the
  \<open>str\<close>; the program only slices strings, joins them and compares them with literals.
\<close>

subsection \<open>Data\<close>

text \<open>An entry of \<open>messages\<close>: the dict \<open>{"role": ..., "content": ...}\<close>.\<close>

record message =
  role :: string
  content :: string

text \<open>A loaded tool; \<open>main\<close> reads only its \<open>name\<close>.\<close>

record tool =
  name :: string

text \<open>
  What \<open>agent.ainvoke\<close> returns: \<open>agent_response["messages"]\<close>, given by the
  \<open>content\<close> of each of its messages, in order.
\<close>

type_synonym response = "string list"

text \<open>
  The agent built by \<open>create_react_agent(model, tools)\<close>. An invocation gets the message
  list and either raises an \<open>Exception\<close> (\<open>Inl\<close>, with the text \<open>str(err)\<close>) or
  returns a response (\<open>Inr\<close>). The agent may answer differently from call to call, so it
  carries a state of its own, of type \<open>'s\<close>. It receives the list as a value: the caller's
  \<open>messages\<close> is changed by \<open>main\<close> alone.
\<close>

type_synonym 's agent = "'s \<Rightarrow> message list \<Rightarrow> (string + response) \<times> 's"

text \<open>The calls of \<open>main\<close> that are visible from outside, in the order they happen.\<close>

datatype event =
    Load_tools \<comment> \<open>\<open>load_mcp_tools(session)\<close>\<close>
  | Create_agent "tool list" \<comment> \<open>\<open>create_react_agent(model, tools)\<close>\<close>
  | Print string \<comment> \<open>the text one \<open>print\<close> call writes\<close>
  | Input string \<comment> \<open>\<open>input(prompt)\<close>: writes the prompt, then reads a line\<close>
  | Ainvoke "message list" \<comment> \<open>\<open>agent.ainvoke({"messages": messages})\<close>\<close>

text \<open>How \<open>main\<close> ends: it returns, or an exception leaves it.\<close>

datatype outcome = Returned | Raised string

record 's state =
  messages :: "message list"
  trace :: "event list"
  agent_state :: 's

text \<open>How lines 77 to 84 end: the connection or the handshake raises, the loading of the
  tools raises, or the tools are there.\<close>

datatype startup = Connect_failed string | Load_failed string | Loaded "tool list"

subsection \<open>Printing\<close>

text \<open>\<open>print(a, b, ...)\<close> writes its arguments with one space between them, then a
  newline.\<close>

fun join :: "string list \<Rightarrow> string" where
  "join [] = []"
| "join [a] = a"
| "join (a # b # rest) = a @ '' '' @ join (b # rest)"

definition py_print :: "string list \<Rightarrow> event" where
  "py_print args = Print (join args @ ''\<newline>'')"

subsection \<open>One turn\<close>

text \<open>\<open>agent_response["messages"][-1].content\<close>: an empty list raises \<open>IndexError\<close>.\<close>

definition last_content :: "response \<Rightarrow> string + string" where
  "last_content response =
     (if response = [] then Inl ''list index out of range'' else Inr (last response))"

text \<open>
  Lines 117 to 133: the capped input is appended to \<open>messages\<close>, the agent is invoked on
  the list, and either the content of the last message of the response is printed or, when
  anything inside the \<open>try\<close> raised, the error.
\<close>

definition turn :: "'s agent \<Rightarrow> 's state \<Rightarrow> string \<Rightarrow> 's state" where
  "turn agent st user_input =
     (let msgs = messages st @ [\<lparr>role = ''user'', content = take 175000 user_input\<rparr>];
          (agent_response, s') = agent (agent_state st) msgs;
          ai_message = (case agent_response of
                          Inl err \<Rightarrow> Inl err
                        | Inr response \<Rightarrow> last_content response);
          line = (case ai_message of
                    Inr text \<Rightarrow> py_print [''\<newline>Agent:'', text]
                  | Inl err \<Rightarrow> py_print [''Error:'', err])
      in \<lparr>messages = msgs, trace = trace st @ [Ainvoke msgs, line], agent_state = s'\<rparr>)"

subsection \<open>The loop\<close>

text \<open>
  Lines 109 to 133, run on the lines the user will type. \<open>input\<close> writes the prompt and
  reads one line; with no line left it raises \<open>EOFError\<close>, outside the \<open>try\<close>, which
  ends \<open>main\<close>. The exit test comes before anything is appended.
\<close>

fun repl :: "'s agent \<Rightarrow> 's state \<Rightarrow> string list \<Rightarrow> outcome \<times> 's state" where
  "repl agent st [] =
     (Raised ''EOFError'', st\<lparr>trace := trace st @ [Input ''\<newline>You: '']\<rparr>)"
| "repl agent st (user_input # rest) =
     (let st1 = st\<lparr>trace := trace st @ [Input ''\<newline>You: '']\<rparr>
      in if user_input \<in> {''quit'', ''q''}
         then (Returned, st1\<lparr>trace := trace st1 @ [py_print [''Goodbye!'']]\<rparr>)
         else repl agent (turn agent st1 user_input) rest)"

subsection \<open>The program\<close>

definition system_prompt :: message where
  "system_prompt =
     \<lparr>role = ''system'',
      content = ''You are a helpful assistant that can scrape websites, '' @
                ''crawl pages, and extract data using Firecrawl tools. '' @
                ''Think step by step and use the appropriate tools.''\<rparr>"

text \<open>
  Lines 77 to 133. An exception before the tools are loaded leaves \<open>main\<close> at once.
  Otherwise the agent is built from the tools, \<open>messages\<close> starts as the system prompt
  alone, the tool names and a rule of sixty dashes are printed, and the loop runs.
\<close>

definition main ::
  "startup \<Rightarrow> (tool list \<Rightarrow> 's agent) \<Rightarrow> 's \<Rightarrow> string list \<Rightarrow> outcome \<times> 's state" where
  "main session create_react_agent s0 inputs =
     (case session of
        Connect_failed err \<Rightarrow> (Raised err, \<lparr>messages = [], trace = [], agent_state = s0\<rparr>)
      | Load_failed err \<Rightarrow>
          (Raised err, \<lparr>messages = [], trace = [Load_tools], agent_state = s0\<rparr>)
      | Loaded tools \<Rightarrow>
          (let agent = create_react_agent tools;
               messages = [system_prompt]
           in repl agent
                \<lparr>messages = messages,
                 trace = [Load_tools, Create_agent tools,
                          py_print (''Available Tools in MCP:'' # map name tools),
                          py_print [replicate 60 CHR ''-'']],
                 agent_state = s0\<rparr>
                inputs))"

subsection \<open>Reading a trace\<close>

text \<open>The message lists the agent was invoked on, in order.\<close>

fun invocations :: "event list \<Rightarrow> message list list" where
  "invocations [] = []"
| "invocations (Ainvoke msgs # evs) = msgs # invocations evs"
| "invocations (_ # evs) = invocations evs"

text \<open>How many times the tools were loaded.\<close>

fun discoveries :: "event list \<Rightarrow> nat" where
  "discoveries [] = 0"
| "discoveries (Load_tools # evs) = Suc (discoveries evs)"
| "discoveries (_ # evs) = discoveries evs"

text \<open>The tool lists agents were built from, in order.\<close>

fun agents_created :: "event list \<Rightarrow> tool list list" where
  "agents_created [] = []"
| "agents_created (Create_agent tools # evs) = tools # agents_created evs"
| "agents_created (_ # evs) = agents_created evs"

text \<open>The prompts input was read with, in order.\<close>

fun prompts :: "event list \<Rightarrow> string list" where
  "prompts [] = []"
| "prompts (Input p # evs) = p # prompts evs"
| "prompts (_ # evs) = prompts evs"

text \<open>A history that starts with the system prompt and holds only user messages after it.\<close>

definition only_users_after_system :: "message list \<Rightarrow> bool" where
  "only_users_after_system h =
     (case h of
        [] \<Rightarrow> False
      | m # ms \<Rightarrow> m = system_prompt \<and> list_all (\<lambda>x. role x = ''user'') ms)"

subsection \<open>Concrete agents and runs\<close>

text \<open>An agent that answers every invocation with one message, and one that always raises.\<close>

definition answering :: "string \<Rightarrow> unit agent" where
  "answering text s msgs = (Inr [text], s)"

definition failing :: "string \<Rightarrow> unit agent" where
  "failing err s msgs = (Inl err, s)"

text \<open>An agent that raises at its first invocation and answers \<open>hello\<close> at every later
  one; its state counts the invocations.\<close>

definition flaky :: "nat agent" where
  "flaky n msgs = (if n = 0 then Inl ''timeout'' else Inr [''hello''], Suc n)"

text \<open>The state in which the loop starts when nothing has been printed yet.\<close>

definition fresh :: "unit state" where
  "fresh = \<lparr>messages = [system_prompt], trace = [], agent_state = ()\<rparr>"

text \<open>A run with no tools, an agent that always answers \<open>hello\<close>, and two lines typed.\<close>

definition two_turn_run :: "outcome \<times> unit state" where
  "two_turn_run = main (Loaded []) (\<lambda>tools. answering ''hello'') () [''hi'', ''again'']"

section \<open>The reasoning loop\<close>

text \<open>
  \<open>main.py\<close> builds its agent with \<open>create_react_agent(model, tools)\<close>, imported from a
  library; no file of the repository contains the loop, and \<open>main\<close> passes no iteration
  bound of its own. The loop below follows section 4.4 of the specification.
\<close>

text \<open>Modelled from the spec: the agent decision of section 3, a final answer with its
  text or a tool call with the tool's name and its arguments.\<close>

datatype decision = FinalAnswer string | ToolCall string string

text \<open>Modelled from the spec: the tool invocation result of sections 3 and 4.2, a success
  payload, a failure with its message, or a timeout.\<close>

datatype tool_result = Success string | Failure string | ToolTimeout

text \<open>Modelled from the spec: what a run of the loop yields, the answer (\<open>Inr\<close>) or the
  oracle's error (\<open>Inl\<close>), the history, and the number of oracle queries made.\<close>

record loop_result =
  answer :: "string + string"
  final_history :: "message list"
  oracle_queries :: nat

text \<open>Modelled from the spec: the text of the fallback of step 4, which says that the
  loop was aborted; the specification gives no wording.\<close>

definition loop_aborted :: string where
  "loop_aborted = ''Reasoning loop aborted: iteration limit reached''"

text \<open>Modelled from the spec: the observation appended for a tool call (steps 3a and 3b):
  a "tool not found" error for a name outside the catalog, else the result of the call or
  its failure. The specification leaves the encoding open.\<close>

definition observation :: "(string \<rightharpoonup> (string \<Rightarrow> tool_result)) \<Rightarrow> string \<Rightarrow> string \<Rightarrow> message" where
  "observation tool_catalog tool_name arguments =
     \<lparr>role = ''tool-observation'',
      content = (case tool_catalog tool_name of
                   None \<Rightarrow> ''tool not found: '' @ tool_name
                 | Some invoke \<Rightarrow>
                     (case invoke arguments of
                        Success payload \<Rightarrow> payload
                      | Failure msg \<Rightarrow> ''tool failed: '' @ msg
                      | ToolTimeout \<Rightarrow> ''tool timed out''))\<rparr>"

text \<open>Modelled from the spec: the reasoning loop of section 4.4, which the repository
  takes from the imported \<open>create_react_agent\<close>. The first argument is what is left of the
  maximum iteration count \<open>N\<close>; the last counts the oracle queries made so far. Each
  iteration asks the oracle (step 1). A final answer is appended as an assistant message
  and returned (step 2); a tool call appends its observation and the loop goes on (step 3);
  a failing oracle aborts the turn with the history as it is; with the count used up the
  result is the fallback (step 4).\<close>

fun reasoning_loop ::
  "nat \<Rightarrow> (message list \<Rightarrow> string + decision) \<Rightarrow> (string \<rightharpoonup> (string \<Rightarrow> tool_result)) \<Rightarrow>
   message list \<Rightarrow> nat \<Rightarrow> loop_result" where
  "reasoning_loop 0 oracle tool_catalog h k =
     \<lparr>answer = Inr loop_aborted, final_history = h, oracle_queries = k\<rparr>"
| "reasoning_loop (Suc n) oracle tool_catalog h k =
     (case oracle h of
        Inl err \<Rightarrow> \<lparr>answer = Inl err, final_history = h, oracle_queries = Suc k\<rparr>
      | Inr (FinalAnswer text) \<Rightarrow>
          \<lparr>answer = Inr text,
           final_history = h @ [\<lparr>role = ''assistant'', content = text\<rparr>],
           oracle_queries = Suc k\<rparr>
      | Inr (ToolCall tool_name arguments) \<Rightarrow>
          reasoning_loop n oracle tool_catalog
            (h @ [observation tool_catalog tool_name arguments]) (Suc k))"

section \<open>Auxiliary facts\<close>

lemma invocations_append: "invocations (xs @ ys) = invocations xs @ invocations ys"
  by (induction xs rule: invocations.induct) simp_all

lemma discoveries_append: "discoveries (xs @ ys) = discoveries xs + discoveries ys"
  by (induction xs rule: discoveries.induct) simp_all

lemma agents_created_append: "agents_created (xs @ ys) = agents_created xs @ agents_created ys"
  by (induction xs rule: agents_created.induct) simp_all

lemma prompts_append: "prompts (xs @ ys) = prompts xs @ prompts ys"
  by (induction xs rule: prompts.induct) simp_all

lemma join_cons: "join (a # xs) = a @ concat (map (\<lambda>x. '' '' @ x) xs)"
  by (induction xs arbitrary: a) simp_all

lemma turn_messages:
  "messages (turn agent st user_input) =
     messages st @ [\<lparr>role = ''user'', content = take 175000 user_input\<rparr>]"
  by (simp add: turn_def Let_def split: prod.splits)

lemma turn_trace:
  "trace (turn agent st user_input) =
     trace st @
     [Ainvoke (messages st @ [\<lparr>role = ''user'', content = take 175000 user_input\<rparr>]),
      Print (case fst (agent (agent_state st)
                         (messages st @ [\<lparr>role = ''user'', content = take 175000 user_input\<rparr>])) of
               Inl err \<Rightarrow> ''Error: '' @ err @ ''\<newline>''
             | Inr response \<Rightarrow>
                 if response = [] then ''Error: list index out of range\<newline>''
                 else ''\<newline>Agent: '' @ last response @ ''\<newline>'')]"
  by (simp add: turn_def Let_def py_print_def last_content_def split: prod.splits sum.splits)

lemma repl_exit:
  "user_input \<in> {''quit'', ''q''} \<Longrightarrow>
   repl agent st (user_input # rest) =
     (Returned, st\<lparr>trace := trace st @ [Input ''\<newline>You: '', Print ''Goodbye!\<newline>'']\<rparr>)"
  by (auto simp: py_print_def)

lemma repl_continue:
  "user_input \<notin> {''quit'', ''q''} \<Longrightarrow>
   repl agent st (user_input # rest) =
     repl agent (turn agent (st\<lparr>trace := trace st @ [Input ''\<newline>You: '']\<rparr>) user_input) rest"
  by (simp add: Let_def)

lemma repl_messages_prefix:
  "prefix (messages st) (messages (snd (repl agent st inputs)))"
proof (induction inputs arbitrary: st)
  case Nil
  show ?case by simp
next
  case (Cons user_input rest)
  show ?case
  proof (cases "user_input \<in> {''quit'', ''q''}")
    case True
    then show ?thesis by (simp add: repl_exit del: repl.simps)
  next
    case False
    let ?st1 = "st\<lparr>trace := trace st @ [Input ''\<newline>You: '']\<rparr>"
    have "prefix (messages (turn agent ?st1 user_input))
            (messages (snd (repl agent (turn agent ?st1 user_input) rest)))"
      by (rule Cons.IH)
    moreover have "prefix (messages st) (messages (turn agent ?st1 user_input))"
      by (simp add: turn_messages)
    ultimately show ?thesis
      unfolding repl_continue [OF False] by (rule prefix_order.trans [rotated])
  qed
qed

lemma repl_trace_starts:
  "\<exists>evs. trace (snd (repl agent st inputs)) = trace st @ Input ''\<newline>You: '' # evs"
proof (induction inputs arbitrary: st)
  case Nil
  show ?case by simp
next
  case (Cons user_input rest)
  show ?case
  proof (cases "user_input \<in> {''quit'', ''q''}")
    case True
    then show ?thesis by (simp add: repl_exit del: repl.simps)
  next
    case False
    let ?st1 = "st\<lparr>trace := trace st @ [Input ''\<newline>You: '']\<rparr>"
    obtain evs where "trace (snd (repl agent (turn agent ?st1 user_input) rest))
        = trace (turn agent ?st1 user_input) @ Input ''\<newline>You: '' # evs"
      using Cons.IH by blast
    then show ?thesis
      unfolding repl_continue [OF False] by (simp add: turn_trace)
  qed
qed

lemma repl_no_discovery:
  "discoveries (trace (snd (repl agent st inputs))) = discoveries (trace st) \<and>
   agents_created (trace (snd (repl agent st inputs))) = agents_created (trace st)"
proof (induction inputs arbitrary: st)
  case Nil
  show ?case by (simp add: discoveries_append agents_created_append)
next
  case (Cons user_input rest)
  show ?case
  proof (cases "user_input \<in> {''quit'', ''q''}")
    case True
    then show ?thesis
      by (simp add: repl_exit discoveries_append agents_created_append del: repl.simps)
  next
    case False
    show ?thesis
      unfolding repl_continue [OF False]
      by (simp add: Cons.IH turn_trace discoveries_append agents_created_append)
  qed
qed

lemma repl_prompts:
  "set (prompts (trace (snd (repl agent st inputs)))) =
     set (prompts (trace st)) \<union> {''\<newline>You: ''}"
proof (induction inputs arbitrary: st)
  case Nil
  show ?case by (simp add: prompts_append)
next
  case (Cons user_input rest)
  show ?case
  proof (cases "user_input \<in> {''quit'', ''q''}")
    case True
    then show ?thesis
      by (simp add: repl_exit prompts_append del: repl.simps)
  next
    case False
    show ?thesis
      unfolding repl_continue [OF False]
      by (simp add: Cons.IH turn_trace prompts_append)
  qed
qed

lemma repl_system_first:
  assumes "only_users_after_system (messages st)"
    and "list_all only_users_after_system (invocations (trace st))"
  shows "list_all only_users_after_system (invocations (trace (snd (repl agent st inputs)))) \<and>
         only_users_after_system (messages (snd (repl agent st inputs)))"
  using assms
proof (induction inputs arbitrary: st)
  case Nil
  then show ?case by (simp add: invocations_append)
next
  case (Cons user_input rest)
  show ?case
  proof (cases "user_input \<in> {''quit'', ''q''}")
    case True
    then show ?thesis using Cons.prems
      by (simp add: repl_exit invocations_append del: repl.simps)
  next
    case False
    let ?st1 = "st\<lparr>trace := trace st @ [Input ''\<newline>You: '']\<rparr>"
    have a: "only_users_after_system (messages (turn agent ?st1 user_input))"
      using Cons.prems(1)
      by (auto simp: turn_messages only_users_after_system_def split: list.splits)
    have b: "list_all only_users_after_system (invocations (trace (turn agent ?st1 user_input)))"
      using Cons.prems a by (simp add: turn_trace invocations_append turn_messages)
    show ?thesis
      unfolding repl_continue [OF False] by (rule Cons.IH [OF a b])
  qed
qed

lemma repl_append:
  assumes "\<forall>x \<in> set pre. x \<notin> {''quit'', ''q''}" and "user_input \<notin> {''quit'', ''q''}"
  shows "repl agent st (pre @ user_input # rest) =
           repl agent (turn agent (snd (repl agent st pre)) user_input) rest"
  using assms(1)
proof (induction pre arbitrary: st)
  case Nil
  show ?case using assms(2) by (simp add: Let_def)
next
  case (Cons p ps)
  then have p: "p \<notin> {''quit'', ''q''}" and ps: "\<forall>x \<in> set ps. x \<notin> {''quit'', ''q''}"
    by simp_all
  let ?st2 = "turn agent (st\<lparr>trace := trace st @ [Input ''\<newline>You: '']\<rparr>) p"
  have "repl agent st ((p # ps) @ user_input # rest) = repl agent ?st2 (ps @ user_input # rest)"
    using repl_continue [OF p, of agent st "ps @ user_input # rest"] by simp
  also have "\<dots> = repl agent (turn agent (snd (repl agent ?st2 ps)) user_input) rest"
    by (rule Cons.IH [OF ps])
  also have "repl agent ?st2 ps = repl agent st (p # ps)"
    by (rule repl_continue [OF p, symmetric])
  finally show ?case .
qed

lemma repl_ends_at_prompt:
  assumes "\<forall>x \<in> set pre. x \<notin> {''quit'', ''q''}"
  shows "fst (repl agent st pre) = Raised ''EOFError'' \<and>
         (\<exists>before. trace (snd (repl agent st pre)) = before @ [Input ''\<newline>You: ''])"
  using assms
proof (induction pre arbitrary: st)
  case Nil
  show ?case by simp
next
  case (Cons p ps)
  then have p: "p \<notin> {''quit'', ''q''}" and ps: "\<forall>x \<in> set ps. x \<notin> {''quit'', ''q''}"
    by simp_all
  show ?case
    unfolding repl_continue [OF p] by (rule Cons.IH [OF ps])
qed

lemma reasoning_loop_only_tool_calls:
  assumes "\<forall>h. \<exists>tool_name arguments. oracle h = Inr (ToolCall tool_name arguments)"
  shows "answer (reasoning_loop n oracle tool_catalog h k) = Inr loop_aborted \<and>
         oracle_queries (reasoning_loop n oracle tool_catalog h k) = k + n"
proof (induction n arbitrary: h k)
  case 0
  show ?case by simp
next
  case (Suc n)
  obtain tool_name arguments where "oracle h = Inr (ToolCall tool_name arguments)"
    using assms by blast
  then show ?case by (simp add: Suc.IH)
qed

section \<open>The claims\<close>

text \<open>
  C1 (as amended). When the agent's invocation returns a response that is not empty, the
  turn prints the content of the last message of the response after \<open>Agent:\<close>. The
  history \<open>messages\<close> gets the capped user message and nothing else: no assistant message
  is appended, so later invocations receive the system prompt and the user messages only.
\<close>

theorem C1_answer_printed_not_stored:
  assumes "agent (agent_state st)
             (messages st @ [\<lparr>role = ''user'', content = take 175000 user_input\<rparr>]) =
           (Inr response, s')"
    and "response \<noteq> []"
  shows "turn agent st user_input =
     \<lparr>messages = messages st @ [\<lparr>role = ''user'', content = take 175000 user_input\<rparr>],
      trace = trace st @
        [Ainvoke (messages st @ [\<lparr>role = ''user'', content = take 175000 user_input\<rparr>]),
         Print (''\<newline>Agent: '' @ last response @ ''\<newline>'')],
      agent_state = s'\<rparr>"
  using assms by (simp add: turn_def Let_def py_print_def last_content_def)

theorem C1_answer_printed_not_stored_witness:
  "answering ''hello'' (agent_state fresh)
     (messages fresh @ [\<lparr>role = ''user'', content = take 175000 ''hi''\<rparr>]) =
     (Inr [''hello''], ()) \<and>
   [''hello''] \<noteq> [] \<and>
   turn (answering ''hello'') fresh ''hi'' =
     \<lparr>messages = [system_prompt, \<lparr>role = ''user'', content = ''hi''\<rparr>],
      trace = [Ainvoke [system_prompt, \<lparr>role = ''user'', content = ''hi''\<rparr>],
               Print ''\<newline>Agent: hello\<newline>''],
      agent_state = ()\<rparr>"
proof -
  have a: "answering ''hello'' (agent_state fresh)
     (messages fresh @ [\<lparr>role = ''user'', content = take 175000 ''hi''\<rparr>]) =
     (Inr [''hello''], ())"
    by (simp add: answering_def)
  have b: "[''hello''] \<noteq> []" by simp
  show ?thesis
    using a b
      C1_answer_printed_not_stored
        [where agent = "answering ''hello''" and st = fresh and user_input = "''hi''"
           and response = "[''hello'']" and s' = "()"]
    by (simp add: fresh_def)
qed

text \<open>
  C1 (as stated) fails. In a run where the agent answers \<open>hello\<close> to both lines typed,
  each answer is printed, yet the second invocation receives the system prompt and the two
  user messages only, and the history at the end holds no assistant message.
\<close>

theorem C1_counterexample:
  "two_turn_run =
     (Raised ''EOFError'',
      \<lparr>messages = [system_prompt, \<lparr>role = ''user'', content = ''hi''\<rparr>,
                   \<lparr>role = ''user'', content = ''again''\<rparr>],
       trace = [Load_tools, Create_agent [],
                Print ''Available Tools in MCP:\<newline>'',
                Print (replicate 60 CHR ''-'' @ ''\<newline>''),
                Input ''\<newline>You: '',
                Ainvoke [system_prompt, \<lparr>role = ''user'', content = ''hi''\<rparr>],
                Print ''\<newline>Agent: hello\<newline>'',
                Input ''\<newline>You: '',
                Ainvoke [system_prompt, \<lparr>role = ''user'', content = ''hi''\<rparr>,
                         \<lparr>role = ''user'', content = ''again''\<rparr>],
                Print ''\<newline>Agent: hello\<newline>'',
                Input ''\<newline>You: ''],
       agent_state = ()\<rparr>) \<and>
   \<lparr>role = ''assistant'', content = ''hello''\<rparr> \<notin> set (messages (snd two_turn_run))"
  by (simp add: two_turn_run_def main_def turn_def answering_def py_print_def
      last_content_def system_prompt_def Let_def)

text \<open>
  C2. The reasoning loop is bounded: with an oracle that answers every query with a tool
  call and never with a final answer, the loop with maximum iteration count \<open>N\<close> ends
  after exactly \<open>N\<close> oracle queries, and its answer is the fallback that says the loop
  was aborted.
\<close>

theorem C2_loop_bounded:
  assumes "\<forall>h. \<exists>tool_name arguments. oracle h = Inr (ToolCall tool_name arguments)"
  shows "answer (reasoning_loop N oracle tool_catalog h 0) = Inr loop_aborted \<and>
         oracle_queries (reasoning_loop N oracle tool_catalog h 0) = N"
  using reasoning_loop_only_tool_calls [OF assms, of N tool_catalog h 0] by simp

theorem C2_loop_bounded_witness:
  "(\<forall>h. \<exists>tool_name arguments.
      (\<lambda>h. Inr (ToolCall ''scrape'' ''{}'')) h = (Inr (ToolCall tool_name arguments) :: string + decision)) \<and>
   answer (reasoning_loop 3 (\<lambda>h. Inr (ToolCall ''scrape'' ''{}'')) Map.empty [system_prompt] 0) =
     Inr loop_aborted \<and>
   oracle_queries (reasoning_loop 3 (\<lambda>h. Inr (ToolCall ''scrape'' ''{}'')) Map.empty [system_prompt] 0) = 3"
proof -
  have a: "\<forall>h::message list. \<exists>tool_name arguments.
      (\<lambda>h. Inr (ToolCall ''scrape'' ''{}'')) h = (Inr (ToolCall tool_name arguments) :: string + decision)"
    by simp
  show ?thesis
    using a C2_loop_bounded [OF a, of 3 Map.empty "[system_prompt]"] by simp
qed

text \<open>
  C3. When the agent's invocation raises in a turn, the turn prints a line that starts
  with \<open>Error:\<close> and carries the error's text, and the loop goes back to the prompt. The
  user message appended for the turn stays in the history until the end of the run.
\<close>

theorem C3_error_keeps_user_message:
  assumes "user_input \<notin> {''quit'', ''q''}"
    and "fst (agent (agent_state st)
               (messages st @ [\<lparr>role = ''user'', content = take 175000 user_input\<rparr>])) =
         Inl err"
  shows "(\<exists>evs. trace (snd (repl agent st (user_input # rest))) =
            trace st @
            [Input ''\<newline>You: '',
             Ainvoke (messages st @ [\<lparr>role = ''user'', content = take 175000 user_input\<rparr>]),
             Print (''Error: '' @ err @ ''\<newline>''),
             Input ''\<newline>You: ''] @ evs) \<and>
         prefix (messages st @ [\<lparr>role = ''user'', content = take 175000 user_input\<rparr>])
           (messages (snd (repl agent st (user_input # rest))))"
proof -
  let ?st1 = "st\<lparr>trace := trace st @ [Input ''\<newline>You: '']\<rparr>"
  let ?st2 = "turn agent ?st1 user_input"
  have step: "repl agent st (user_input # rest) = repl agent ?st2 rest"
    by (rule repl_continue [OF assms(1)])
  have tr: "trace ?st2 =
      trace st @
      [Input ''\<newline>You: '',
       Ainvoke (messages st @ [\<lparr>role = ''user'', content = take 175000 user_input\<rparr>]),
       Print (''Error: '' @ err @ ''\<newline>'')]"
    using assms(2) by (simp add: turn_trace)
  obtain evs where "trace (snd (repl agent ?st2 rest)) = trace ?st2 @ Input ''\<newline>You: '' # evs"
    using repl_trace_starts by blast
  then have "trace (snd (repl agent st (user_input # rest))) =
            trace st @
            [Input ''\<newline>You: '',
             Ainvoke (messages st @ [\<lparr>role = ''user'', content = take 175000 user_input\<rparr>]),
             Print (''Error: '' @ err @ ''\<newline>''),
             Input ''\<newline>You: ''] @ evs"
    unfolding step tr by simp
  moreover have "prefix (messages ?st2) (messages (snd (repl agent ?st2 rest)))"
    by (rule repl_messages_prefix)
  then have "prefix (messages st @ [\<lparr>role = ''user'', content = take 175000 user_input\<rparr>])
           (messages (snd (repl agent st (user_input # rest))))"
    unfolding step by (simp add: turn_messages)
  ultimately show ?thesis by blast
qed

theorem C3_error_keeps_user_message_witness:
  "''hi'' \<notin> {''quit'', ''q''} \<and>
   fst (failing ''timeout'' (agent_state fresh)
         (messages fresh @ [\<lparr>role = ''user'', content = take 175000 ''hi''\<rparr>])) =
     Inl ''timeout'' \<and>
   (\<exists>evs. trace (snd (repl (failing ''timeout'') fresh [''hi'', ''q''])) =
      [Input ''\<newline>You: '',
       Ainvoke [system_prompt, \<lparr>role = ''user'', content = ''hi''\<rparr>],
       Print ''Error: timeout\<newline>'',
       Input ''\<newline>You: ''] @ evs) \<and>
   prefix [system_prompt, \<lparr>role = ''user'', content = ''hi''\<rparr>]
     (messages (snd (repl (failing ''timeout'') fresh [''hi'', ''q''])))"
proof -
  have a: "''hi'' \<notin> {''quit'', ''q''}" by simp
  have b: "fst (failing ''timeout'' (agent_state fresh)
         (messages fresh @ [\<lparr>role = ''user'', content = take 175000 ''hi''\<rparr>])) =
     Inl ''timeout''"
    by (simp add: failing_def)
  have c: "messages fresh = [system_prompt]" "trace fresh = []"
    by (simp_all add: fresh_def)
  show ?thesis
    using a b
      C3_error_keeps_user_message
        [where user_input = "''hi''" and agent = "failing ''timeout''" and st = fresh
           and err = "''timeout''" and rest = "[''q'']", OF a b]
    unfolding c by simp
qed

text \<open>
  C4. The history is append-only: a turn, and the loop on any lines typed from any state,
  leave the history they started from as a prefix of the history they end with; no entry
  is changed, removed or moved.
\<close>

theorem C4_history_append_only:
  "prefix (messages st) (messages (turn agent st user_input)) \<and>
   prefix (messages st) (messages (snd (repl agent st inputs)))"
  by (simp add: turn_messages repl_messages_prefix)

text \<open>
  C5. An input longer than 175000 characters is stored cut to exactly 175000 characters:
  the history of the run holds, right after the history the turn started from, a user
  message whose content is the first 175000 characters of the input, and that content is a
  strict prefix of the input.
\<close>

theorem C5_input_capped:
  assumes "175000 < length user_input"
  shows "(\<exists>later. messages (snd (repl agent st (user_input # rest))) =
            messages st @ \<lparr>role = ''user'', content = take 175000 user_input\<rparr> # later) \<and>
         length (take 175000 user_input) = 175000 \<and>
         strict_prefix (take 175000 user_input) user_input"
proof -
  let ?st2 = "turn agent (st\<lparr>trace := trace st @ [Input ''\<newline>You: '']\<rparr>) user_input"
  have "user_input \<noteq> ''quit''" "user_input \<noteq> ''q''"
    using assms by auto
  then have "user_input \<notin> {''quit'', ''q''}" by simp
  then have step: "repl agent st (user_input # rest) = repl agent ?st2 rest"
    by (rule repl_continue)
  have "prefix (messages ?st2) (messages (snd (repl agent ?st2 rest)))"
    by (rule repl_messages_prefix)
  then obtain later where
    "messages (snd (repl agent ?st2 rest)) = messages ?st2 @ later"
    by (auto simp: prefix_def)
  then have "messages (snd (repl agent st (user_input # rest))) =
      messages st @ \<lparr>role = ''user'', content = take 175000 user_input\<rparr> # later"
    unfolding step by (simp add: turn_messages)
  moreover have "length (take 175000 user_input) = 175000"
    using assms by simp
  moreover have "strict_prefix (take 175000 user_input) user_input"
    using assms by (simp add: strict_prefix_def take_is_prefix)
  ultimately show ?thesis by blast
qed

theorem C5_input_capped_witness:
  "175000 < length (replicate 175001 CHR ''a'') \<and>
   (\<exists>later. messages (snd (repl (answering ''ok'') fresh [replicate 175001 CHR ''a'', ''q''])) =
      system_prompt # \<lparr>role = ''user'', content = replicate 175000 CHR ''a''\<rparr> # later) \<and>
   length (replicate 175000 CHR ''a'') = 175000 \<and>
   strict_prefix (replicate 175000 CHR ''a'') (replicate 175001 CHR ''a'')"
proof -
  have a: "175000 < length (replicate 175001 CHR ''a'')" by simp
  have c: "messages fresh = [system_prompt]"
    by (simp add: fresh_def)
  have t: "take 175000 (replicate 175001 CHR ''a'') = replicate 175000 CHR ''a''"
    by simp
  show ?thesis
    using a
      C5_input_capped
        [where user_input = "replicate 175001 CHR ''a''" and agent = "answering ''ok''"
           and st = fresh and rest = "[''q'']", OF a]
    unfolding c t by (simp del: repl.simps length_replicate)
qed

text \<open>
  C6. When the line typed is exactly \<open>quit\<close> or exactly \<open>q\<close>, the loop prints its
  farewell and \<open>main\<close> returns: the agent is not invoked for that line, and no message is
  appended to the history.
\<close>

theorem C6_exit_tokens:
  assumes "user_input = ''quit'' \<or> user_input = ''q''"
  shows "repl agent st (user_input # rest) =
           (Returned,
            st\<lparr>trace := trace st @ [Input ''\<newline>You: '', Print ''Goodbye!\<newline>'']\<rparr>) \<and>
         messages (snd (repl agent st (user_input # rest))) = messages st \<and>
         invocations (trace (snd (repl agent st (user_input # rest)))) = invocations (trace st)"
proof -
  have "user_input \<in> {''quit'', ''q''}"
    using assms by auto
  then show ?thesis
    by (simp add: repl_exit invocations_append del: repl.simps)
qed

theorem C6_exit_tokens_witness:
  "(''quit'' = ''quit'' \<or> ''quit'' = ''q'') \<and>
   repl (answering ''hello'') fresh [''quit'', ''hi''] =
     (Returned,
      \<lparr>messages = [system_prompt],
       trace = [Input ''\<newline>You: '', Print ''Goodbye!\<newline>''],
       agent_state = ()\<rparr>) \<and>
   invocations (trace (snd (repl (answering ''hello'') fresh [''quit'', ''hi'']))) = []"
proof -
  have a: "''quit'' = ''quit'' \<or> ''quit'' = ''q''" by simp
  have c: "messages fresh = [system_prompt]" "trace fresh = []"
    by (simp_all add: fresh_def)
  show ?thesis
    using a
      C6_exit_tokens
        [where user_input = "''quit''" and agent = "answering ''hello''" and st = fresh
           and rest = "[''hi'']", OF a]
    by (simp add: fresh_def del: repl.simps)
qed

text \<open>
  C7. The tools are loaded once, before the loop: in a run that starts up, the trace
  begins with the loading of the tools and the creation of the agent from them, no other
  loading and no other creation happens in the whole run, and the loop runs with that one
  agent.
\<close>

theorem C7_tools_loaded_once:
  "discoveries (trace (snd (main (Loaded tools) create_react_agent s0 inputs))) = 1 \<and>
   agents_created (trace (snd (main (Loaded tools) create_react_agent s0 inputs))) = [tools] \<and>
   take 2 (trace (snd (main (Loaded tools) create_react_agent s0 inputs))) =
     [Load_tools, Create_agent tools] \<and>
   main (Loaded tools) create_react_agent s0 inputs =
     repl (create_react_agent tools)
       \<lparr>messages = [system_prompt],
        trace = [Load_tools, Create_agent tools,
                 py_print (''Available Tools in MCP:'' # map name tools),
                 py_print [replicate 60 CHR ''-'']],
        agent_state = s0\<rparr>
       inputs"
proof -
  let ?st = "\<lparr>messages = [system_prompt],
        trace = [Load_tools, Create_agent tools,
                 py_print (''Available Tools in MCP:'' # map name tools),
                 py_print [replicate 60 CHR ''-'']],
        agent_state = s0\<rparr>"
  have m: "main (Loaded tools) create_react_agent s0 inputs =
             repl (create_react_agent tools) ?st inputs"
    by (simp add: main_def)
  obtain evs where
    "trace (snd (repl (create_react_agent tools) ?st inputs)) = trace ?st @ Input ''\<newline>You: '' # evs"
    using repl_trace_starts by blast
  then have "take 2 (trace (snd (repl (create_react_agent tools) ?st inputs))) =
      [Load_tools, Create_agent tools]"
    by simp
  moreover have "discoveries (trace (snd (repl (create_react_agent tools) ?st inputs))) = 1"
    by (simp add: repl_no_discovery py_print_def)
  moreover have "agents_created (trace (snd (repl (create_react_agent tools) ?st inputs))) = [tools]"
    by (simp add: repl_no_discovery py_print_def)
  ultimately show ?thesis
    unfolding m by simp
qed

text \<open>
  C8. The user-facing surface of a run. A run that starts up prints, before the first
  prompt, a banner with the names of the tools loaded and a rule, and every line is read
  with the prompt \<open>You: \<close> (after a newline). For every turn of the run, reached after
  any lines \<open>pre\<close> that are no exit tokens: the line is read at the prompt, the agent is
  invoked, and the run prints \<open>Agent: \<close> and the answer (after a newline) when the
  invocation succeeds, \<open>Error: \<close> and the error's text when it fails; then the next
  prompt is shown.
\<close>

theorem C8_user_facing_surface:
  assumes "\<forall>x \<in> set (pre @ [user_input]). x \<notin> {''quit'', ''q''}"
  shows "(\<exists>evs. trace (snd (main (Loaded tools) create_react_agent s0 inputs)) =
            [Load_tools, Create_agent tools,
             Print (''Available Tools in MCP:'' @ concat (map (\<lambda>t. '' '' @ name t) tools) @ ''\<newline>''),
             Print (replicate 60 CHR ''-'' @ ''\<newline>''),
             Input ''\<newline>You: ''] @ evs) \<and>
         set (prompts (trace (snd (main (Loaded tools) create_react_agent s0 inputs)))) =
           {''\<newline>You: ''} \<and>
         (\<exists>before evs.
            trace (snd (main (Loaded tools) create_react_agent s0 pre)) =
              before @ [Input ''\<newline>You: ''] \<and>
            trace (snd (main (Loaded tools) create_react_agent s0 (pre @ user_input # rest))) =
              before @
              [Input ''\<newline>You: '',
               Ainvoke (messages (snd (main (Loaded tools) create_react_agent s0 pre)) @
                        [\<lparr>role = ''user'', content = take 175000 user_input\<rparr>]),
               Print (case fst (create_react_agent tools
                                  (agent_state (snd (main (Loaded tools) create_react_agent s0 pre)))
                                  (messages (snd (main (Loaded tools) create_react_agent s0 pre)) @
                                   [\<lparr>role = ''user'', content = take 175000 user_input\<rparr>])) of
                        Inl err \<Rightarrow> ''Error: '' @ err @ ''\<newline>''
                      | Inr response \<Rightarrow>
                          if response = [] then ''Error: list index out of range\<newline>''
                          else ''\<newline>Agent: '' @ last response @ ''\<newline>''),
               Input ''\<newline>You: ''] @ evs)"
proof -
  let ?agent = "create_react_agent tools"
  let ?st = "\<lparr>messages = [system_prompt],
        trace = [Load_tools, Create_agent tools,
                 py_print (''Available Tools in MCP:'' # map name tools),
                 py_print [replicate 60 CHR ''-'']],
        agent_state = s0\<rparr>"
  have m: "\<And>xs. main (Loaded tools) create_react_agent s0 xs = repl ?agent ?st xs"
    by (simp add: main_def)
  have banner: "join (''Available Tools in MCP:'' # map name tools) =
      ''Available Tools in MCP:'' @ concat (map (\<lambda>t. '' '' @ name t) tools)"
    by (simp add: join_cons comp_def)
  obtain evs0 where
    "trace (snd (repl ?agent ?st inputs)) = trace ?st @ Input ''\<newline>You: '' # evs0"
    using repl_trace_starts by blast
  then have first: "\<exists>evs. trace (snd (main (Loaded tools) create_react_agent s0 inputs)) =
      [Load_tools, Create_agent tools,
       Print (''Available Tools in MCP:'' @ concat (map (\<lambda>t. '' '' @ name t) tools) @ ''\<newline>''),
       Print (replicate 60 CHR ''-'' @ ''\<newline>''),
       Input ''\<newline>You: ''] @ evs"
    unfolding m by (simp add: py_print_def banner)
  have second: "set (prompts (trace (snd (main (Loaded tools) create_react_agent s0 inputs)))) =
     {''\<newline>You: ''}"
    unfolding m by (simp add: repl_prompts py_print_def)
  let ?S = "snd (repl ?agent ?st pre)"
  have pre: "\<forall>x \<in> set pre. x \<notin> {''quit'', ''q''}" and u: "user_input \<notin> {''quit'', ''q''}"
    using assms by simp_all
  obtain before where before: "trace ?S = before @ [Input ''\<newline>You: '']"
    using repl_ends_at_prompt [OF pre] by blast
  have step: "repl ?agent ?st (pre @ user_input # rest) = repl ?agent (turn ?agent ?S user_input) rest"
    by (rule repl_append [OF pre u])
  obtain evs where
    "trace (snd (repl ?agent (turn ?agent ?S user_input) rest)) =
       trace (turn ?agent ?S user_input) @ Input ''\<newline>You: '' # evs"
    using repl_trace_starts by blast
  then have "trace (snd (repl ?agent ?st (pre @ user_input # rest))) =
      before @
      [Input ''\<newline>You: '',
       Ainvoke (messages ?S @ [\<lparr>role = ''user'', content = take 175000 user_input\<rparr>]),
       Print (case fst (?agent (agent_state ?S)
                          (messages ?S @ [\<lparr>role = ''user'', content = take 175000 user_input\<rparr>])) of
                Inl err \<Rightarrow> ''Error: '' @ err @ ''\<newline>''
              | Inr response \<Rightarrow>
                  if response = [] then ''Error: list index out of range\<newline>''
                  else ''\<newline>Agent: '' @ last response @ ''\<newline>''),
       Input ''\<newline>You: ''] @ evs"
    unfolding step by (simp add: turn_trace before)
  with before have third: "\<exists>before evs.
            trace (snd (main (Loaded tools) create_react_agent s0 pre)) =
              before @ [Input ''\<newline>You: ''] \<and>
            trace (snd (main (Loaded tools) create_react_agent s0 (pre @ user_input # rest))) =
              before @
              [Input ''\<newline>You: '',
               Ainvoke (messages (snd (main (Loaded tools) create_react_agent s0 pre)) @
                        [\<lparr>role = ''user'', content = take 175000 user_input\<rparr>]),
               Print (case fst (create_react_agent tools
                                  (agent_state (snd (main (Loaded tools) create_react_agent s0 pre)))
                                  (messages (snd (main (Loaded tools) create_react_agent s0 pre)) @
                                   [\<lparr>role = ''user'', content = take 175000 user_input\<rparr>])) of
                        Inl err \<Rightarrow> ''Error: '' @ err @ ''\<newline>''
                      | Inr response \<Rightarrow>
                          if response = [] then ''Error: list index out of range\<newline>''
                          else ''\<newline>Agent: '' @ last response @ ''\<newline>''),
               Input ''\<newline>You: ''] @ evs"
    unfolding m by blast
  from first second third show ?thesis by blast
qed

theorem C8_user_facing_surface_witness:
  "trace (snd (main (Loaded [\<lparr>name = ''scrape''\<rparr>, \<lparr>name = ''crawl''\<rparr>]) (\<lambda>tools. flaky) 0
                 [''hi'', ''again'', ''q''])) =
     [Load_tools, Create_agent [\<lparr>name = ''scrape''\<rparr>, \<lparr>name = ''crawl''\<rparr>],
      Print ''Available Tools in MCP: scrape crawl\<newline>'',
      Print (replicate 60 CHR ''-'' @ ''\<newline>''),
      Input ''\<newline>You: '',
      Ainvoke [system_prompt, \<lparr>role = ''user'', content = ''hi''\<rparr>],
      Print ''Error: timeout\<newline>'',
      Input ''\<newline>You: '',
      Ainvoke [system_prompt, \<lparr>role = ''user'', content = ''hi''\<rparr>,
               \<lparr>role = ''user'', content = ''again''\<rparr>],
      Print ''\<newline>Agent: hello\<newline>'',
      Input ''\<newline>You: '',
      Print ''Goodbye!\<newline>''] \<and>
   (\<exists>before evs.
      trace (snd (main (Loaded [\<lparr>name = ''scrape''\<rparr>, \<lparr>name = ''crawl''\<rparr>]) (\<lambda>tools. flaky) 0
                    [''hi''])) =
        before @ [Input ''\<newline>You: ''] \<and>
      trace (snd (main (Loaded [\<lparr>name = ''scrape''\<rparr>, \<lparr>name = ''crawl''\<rparr>]) (\<lambda>tools. flaky) 0
                    [''hi'', ''again'', ''q''])) =
        before @
        [Input ''\<newline>You: '',
         Ainvoke [system_prompt, \<lparr>role = ''user'', content = ''hi''\<rparr>,
                  \<lparr>role = ''user'', content = ''again''\<rparr>],
         Print ''\<newline>Agent: hello\<newline>'',
         Input ''\<newline>You: ''] @ evs)"
proof -
  let ?tools = "[\<lparr>name = ''scrape''\<rparr>, \<lparr>name = ''crawl''\<rparr>]"
  have a: "\<forall>x \<in> set ([''hi''] @ [''again'']). x \<notin> {''quit'', ''q''}"
    by simp
  have pre: "snd (main (Loaded ?tools) (\<lambda>tools. flaky) 0 [''hi'']) =
      \<lparr>messages = [system_prompt, \<lparr>role = ''user'', content = ''hi''\<rparr>],
       trace = [Load_tools, Create_agent ?tools,
                Print ''Available Tools in MCP: scrape crawl\<newline>'',
                Print (replicate 60 CHR ''-'' @ ''\<newline>''),
                Input ''\<newline>You: '',
                Ainvoke [system_prompt, \<lparr>role = ''user'', content = ''hi''\<rparr>],
                Print ''Error: timeout\<newline>'',
                Input ''\<newline>You: ''],
       agent_state = Suc 0\<rparr>"
    by (simp add: main_def turn_def flaky_def py_print_def last_content_def Let_def)
  have run: "trace (snd (main (Loaded ?tools) (\<lambda>tools. flaky) 0 [''hi'', ''again'', ''q''])) =
     [Load_tools, Create_agent ?tools,
      Print ''Available Tools in MCP: scrape crawl\<newline>'',
      Print (replicate 60 CHR ''-'' @ ''\<newline>''),
      Input ''\<newline>You: '',
      Ainvoke [system_prompt, \<lparr>role = ''user'', content = ''hi''\<rparr>],
      Print ''Error: timeout\<newline>'',
      Input ''\<newline>You: '',
      Ainvoke [system_prompt, \<lparr>role = ''user'', content = ''hi''\<rparr>,
               \<lparr>role = ''user'', content = ''again''\<rparr>],
      Print ''\<newline>Agent: hello\<newline>'',
      Input ''\<newline>You: '',
      Print ''Goodbye!\<newline>'']"
    by (simp add: main_def turn_def flaky_def py_print_def last_content_def Let_def)
  have "\<exists>before evs.
      trace (snd (main (Loaded ?tools) (\<lambda>tools. flaky) 0 [''hi''])) =
        before @ [Input ''\<newline>You: ''] \<and>
      trace (snd (main (Loaded ?tools) (\<lambda>tools. flaky) 0 [''hi'', ''again'', ''q''])) =
        before @
        [Input ''\<newline>You: '',
         Ainvoke [system_prompt, \<lparr>role = ''user'', content = ''hi''\<rparr>,
                  \<lparr>role = ''user'', content = ''again''\<rparr>],
         Print ''\<newline>Agent: hello\<newline>'',
         Input ''\<newline>You: ''] @ evs"
    using
      C8_user_facing_surface
        [where pre = "[''hi'']" and user_input = "''again''" and rest = "[''q'']"
           and tools = ?tools and create_react_agent = "\<lambda>tools. flaky" and ?s0.0 = 0
           and inputs = "[]", OF a, THEN conjunct2, THEN conjunct2]
    unfolding pre by (simp add: flaky_def del: repl.simps)
  with run show ?thesis by blast
qed

text \<open>
  C9. The exit test is exact and case-sensitive: a line that is neither \<open>quit\<close> nor
  \<open>q\<close> does not end the loop. The line, capped, is appended to the history as a user
  message, the agent is invoked on the history so extended, and the loop goes on to the
  next prompt.
\<close>

theorem C9_exit_match_exact:
  assumes "user_input \<noteq> ''quit''" and "user_input \<noteq> ''q''"
  shows "repl agent st (user_input # rest) =
           repl agent (turn agent (st\<lparr>trace := trace st @ [Input ''\<newline>You: '']\<rparr>) user_input) rest \<and>
         messages (turn agent (st\<lparr>trace := trace st @ [Input ''\<newline>You: '']\<rparr>) user_input) =
           messages st @ [\<lparr>role = ''user'', content = take 175000 user_input\<rparr>] \<and>
         (\<exists>line evs. trace (snd (repl agent st (user_input # rest))) =
            trace st @
            [Input ''\<newline>You: '',
             Ainvoke (messages st @ [\<lparr>role = ''user'', content = take 175000 user_input\<rparr>]),
             Print line,
             Input ''\<newline>You: ''] @ evs)"
proof -
  let ?st1 = "st\<lparr>trace := trace st @ [Input ''\<newline>You: '']\<rparr>"
  let ?st2 = "turn agent ?st1 user_input"
  have "user_input \<notin> {''quit'', ''q''}"
    using assms by simp
  then have step: "repl agent st (user_input # rest) = repl agent ?st2 rest"
    by (rule repl_continue)
  obtain evs where "trace (snd (repl agent ?st2 rest)) = trace ?st2 @ Input ''\<newline>You: '' # evs"
    using repl_trace_starts by blast
  then have "\<exists>line evs. trace (snd (repl agent st (user_input # rest))) =
            trace st @
            [Input ''\<newline>You: '',
             Ainvoke (messages st @ [\<lparr>role = ''user'', content = take 175000 user_input\<rparr>]),
             Print line,
             Input ''\<newline>You: ''] @ evs"
    unfolding step by (simp add: turn_trace)
  then show ?thesis
    using step by (simp add: turn_messages del: repl.simps)
qed

theorem C9_exit_match_exact_witness:
  "''Quit'' \<noteq> ''quit'' \<and> ''Quit'' \<noteq> ''q'' \<and>
   messages (turn (answering ''hello'') (fresh\<lparr>trace := trace fresh @ [Input ''\<newline>You: '']\<rparr>) ''Quit'') =
     [system_prompt, \<lparr>role = ''user'', content = ''Quit''\<rparr>] \<and>
   (\<exists>line evs. trace (snd (repl (answering ''hello'') fresh [''Quit'', ''q''])) =
      [Input ''\<newline>You: '',
       Ainvoke [system_prompt, \<lparr>role = ''user'', content = ''Quit''\<rparr>],
       Print line,
       Input ''\<newline>You: ''] @ evs)"
proof -
  have a: "''Quit'' \<noteq> ''quit''" and b: "''Quit'' \<noteq> ''q''" by simp_all
  have c: "messages fresh = [system_prompt]" "trace fresh = []"
    by (simp_all add: fresh_def)
  show ?thesis
    using a b
      C9_exit_match_exact
        [where user_input = "''Quit''" and agent = "answering ''hello''" and st = fresh
           and rest = "[''q'']", OF a b, THEN conjunct2]
    unfolding c by (simp del: repl.simps)
qed

text \<open>
  C10. The system prompt is put into the history once, before the loop. Every message list
  the agent is invoked on in a run, and the history at the end of the run, is the system
  prompt followed by user messages only: the system prompt stays first, nothing comes
  before it, and there is no second system message.
\<close>

theorem C10_system_prompt_first:
  assumes "h \<in> set (invocations (trace (snd (main (Loaded tools) create_react_agent s0 inputs)))) \<or>
           h = messages (snd (main (Loaded tools) create_react_agent s0 inputs))"
  shows "(\<exists>users. h = system_prompt # users \<and> (\<forall>m \<in> set users. role m = ''user'')) \<and>
         filter (\<lambda>m. role m = ''system'') h = [system_prompt]"
proof -
  let ?st = "\<lparr>messages = [system_prompt],
        trace = [Load_tools, Create_agent tools,
                 py_print (''Available Tools in MCP:'' # map name tools),
                 py_print [replicate 60 CHR ''-'']],
        agent_state = s0\<rparr>"
  have m: "main (Loaded tools) create_react_agent s0 inputs =
             repl (create_react_agent tools) ?st inputs"
    by (simp add: main_def)
  have "only_users_after_system (messages ?st)"
    by (simp add: only_users_after_system_def)
  moreover have "list_all only_users_after_system (invocations (trace ?st))"
    by (simp add: py_print_def)
  ultimately have
    "list_all only_users_after_system
       (invocations (trace (snd (repl (create_react_agent tools) ?st inputs)))) \<and>
     only_users_after_system (messages (snd (repl (create_react_agent tools) ?st inputs)))"
    by (rule repl_system_first)
  then have "only_users_after_system h"
    using assms unfolding m by (auto simp: list_all_iff)
  then obtain users where h: "h = system_prompt # users"
    and u: "\<forall>m \<in> set users. role m = ''user''"
    by (auto simp: only_users_after_system_def list_all_iff split: list.splits)
  have "filter (\<lambda>m. role m = ''system'') users = []"
    using u by (induction users) auto
  then have "filter (\<lambda>m. role m = ''system'') h = [system_prompt]"
    unfolding h by (simp add: system_prompt_def)
  then show ?thesis
    using h u by blast
qed

theorem C10_system_prompt_first_witness:
  "[system_prompt, \<lparr>role = ''user'', content = ''hi''\<rparr>] \<in>
     set (invocations (trace (snd (main (Loaded []) (\<lambda>tools. answering ''hello'') ()
                                     [''hi'', ''again''])))) \<and>
   (\<exists>users. [system_prompt, \<lparr>role = ''user'', content = ''hi''\<rparr>] = system_prompt # users \<and>
      (\<forall>m \<in> set users. role m = ''user'')) \<and>
   filter (\<lambda>m. role m = ''system'') [system_prompt, \<lparr>role = ''user'', content = ''hi''\<rparr>] =
     [system_prompt]"
proof -
  have a: "[system_prompt, \<lparr>role = ''user'', content = ''hi''\<rparr>] \<in>
     set (invocations (trace (snd (main (Loaded []) (\<lambda>tools. answering ''hello'') ()
                                     [''hi'', ''again'']))))"
    by (simp add: main_def turn_def answering_def py_print_def last_content_def Let_def)
  show ?thesis
    using a
      C10_system_prompt_first
        [where h = "[system_prompt, \<lparr>role = ''user'', content = ''hi''\<rparr>]"
           and tools = "[]" and create_react_agent = "\<lambda>tools. answering ''hello''"
           and ?s0.0 = "()" and inputs = "[''hi'', ''again'']"]
    by blast
qed

end
